theory Spec2Isabelle
  imports Main
begin

section \<open>Python values used by ocflib.lab.hours and ocflib.printing.quota\<close>

text \<open>
  Exceptions are values: every function that can raise returns \<open>error + 'a\<close>, with
  \<open>Inl\<close> carrying the exception class.
\<close>

datatype error = ValueError | TypeError | KeyError | IndexError | OverflowError | AttributeError

text \<open>
  A \<^verbatim>\<open>datetime.date\<close> is represented by its proleptic Gregorian ordinal
  (\<^verbatim>\<open>date.toordinal()\<close>: 0001-01-01 is day 1, 9999-12-31 is day 3652059), a
  \<^verbatim>\<open>datetime.time\<close> by the number of microseconds since midnight, and a
  \<^verbatim>\<open>timedelta\<close> by its length in microseconds. Order and equality of the Python
  objects are those of these numbers. All datetimes are naive (no time zone).
\<close>

type_synonym date = int
type_synonym time = int
type_synonym timedelta = int

record datetime =
  dt_date :: date
  dt_time :: time

definition MAXORDINAL :: int where
  "MAXORDINAL = 3652059"

definition is_leap :: "int \<Rightarrow> bool" where
  "is_leap y = (y mod 4 = 0 \<and> (y mod 100 \<noteq> 0 \<or> y mod 400 = 0))"

definition days_before_year :: "int \<Rightarrow> int" where
  "days_before_year year = (let y = year - 1 in y * 365 + y div 4 - y div 100 + y div 400)"

definition days_before_month :: "int \<Rightarrow> nat \<Rightarrow> int" where
  "days_before_month year month =
     [0, 0, 31, 59, 90, 120, 151, 181, 212, 243, 273, 304, 334] ! month
       + (if month > 2 \<and> is_leap year then 1 else 0)"

text \<open>\<^verbatim>\<open>date(year, month, day)\<close> for a valid calendar day (month in 1..12).\<close>

definition ymd :: "int \<Rightarrow> nat \<Rightarrow> nat \<Rightarrow> date" where
  "ymd year month day = days_before_year year + days_before_month year month + int day"

text \<open>\<^verbatim>\<open>time(hour, minute)\<close>.\<close>

definition hm :: "nat \<Rightarrow> nat \<Rightarrow> time" where
  "hm h m = (int h * 60 + int m) * 60000000"

text \<open>\<^verbatim>\<open>date.weekday()\<close>: Monday is 0, Sunday is 6.\<close>

definition date_weekday :: "date \<Rightarrow> int" where
  "date_weekday d = (d + 6) mod 7"

text \<open>\<^verbatim>\<open>date + timedelta(days=n)\<close> raises OverflowError outside 0001-01-01..9999-12-31.\<close>

definition date_add_days :: "date \<Rightarrow> int \<Rightarrow> error + date" where
  "date_add_days d n = (if 1 \<le> d + n \<and> d + n \<le> MAXORDINAL then Inr (d + n) else Inl OverflowError)"

definition combine :: "date \<Rightarrow> time \<Rightarrow> datetime" where
  "combine d t = \<lparr>dt_date = d, dt_time = t\<rparr>"

definition datetime_less :: "datetime \<Rightarrow> datetime \<Rightarrow> bool" where
  "datetime_less a b = (dt_date a < dt_date b \<or> (dt_date a = dt_date b \<and> dt_time a < dt_time b))"

definition datetime_sub :: "datetime \<Rightarrow> datetime \<Rightarrow> timedelta" where
  "datetime_sub a b = (dt_date a - dt_date b) * 86400000000 + (dt_time a - dt_time b)"

text \<open>
  The argument \<^verbatim>\<open>when\<close> of the methods of \<^verbatim>\<open>Hours\<close> is dynamically typed: it
  may be \<^verbatim>\<open>None\<close> (the default), a \<^verbatim>\<open>datetime\<close>, or something that is not a
  datetime, for which a \<^verbatim>\<open>time\<close> stands. Datetimes and times are always truthy.
\<close>

datatype pyarg = PyNone | PyDatetime datetime | PyTime time

text \<open>\<^verbatim>\<open>o > when\<close> and \<^verbatim>\<open>o - when\<close> for a datetime \<open>o\<close>: only another datetime is accepted.\<close>

fun datetime_gt :: "datetime \<Rightarrow> pyarg \<Rightarrow> error + bool" where
  "datetime_gt a (PyDatetime w) = Inr (datetime_less w a)"
| "datetime_gt a _ = Inl TypeError"

fun datetime_minus :: "datetime \<Rightarrow> pyarg \<Rightarrow> error + timedelta" where
  "datetime_minus a (PyDatetime w) = Inr (datetime_sub a w)"
| "datetime_minus a _ = Inl TypeError"

text \<open>\<^verbatim>\<open>xs[i]\<close> for a non-negative index.\<close>

definition getitem :: "'a list \<Rightarrow> nat \<Rightarrow> error + 'a" where
  "getitem xs i = (if i < length xs then Inr (xs ! i) else Inl IndexError)"

section \<open>ocflib.lab.hours\<close>

datatype Days = Monday | Tuesday | Wednesday | Thursday | Friday | Saturday | Sunday

text \<open>\<^verbatim>\<open>Days(n)\<close>: lookup by value.\<close>

definition Days_of_value :: "int \<Rightarrow> error + Days" where
  "Days_of_value n =
     (if n = 0 then Inr Monday else if n = 1 then Inr Tuesday else if n = 2 then Inr Wednesday
      else if n = 3 then Inr Thursday else if n = 4 then Inr Friday else if n = 5 then Inr Saturday
      else if n = 6 then Inr Sunday else Inl ValueError)"

text \<open>\<^verbatim>\<open>Days[name]\<close>: lookup by member name.\<close>

definition Days_of_name :: "string \<Rightarrow> error + Days" where
  "Days_of_name s =
     (if s = ''Monday'' then Inr Monday else if s = ''Tuesday'' then Inr Tuesday
      else if s = ''Wednesday'' then Inr Wednesday else if s = ''Thursday'' then Inr Thursday
      else if s = ''Friday'' then Inr Friday else if s = ''Saturday'' then Inr Saturday
      else if s = ''Sunday'' then Inr Sunday else Inl KeyError)"

text \<open>\<^verbatim>\<open>day.strftime('%A')\<close> in the C locale.\<close>

definition strftime_A :: "date \<Rightarrow> string" where
  "strftime_A d =
     [''Monday'', ''Tuesday'', ''Wednesday'', ''Thursday'', ''Friday'', ''Saturday'', ''Sunday'']
       ! nat (date_weekday d)"

record Hour =
  "open" :: time
  close :: time

text \<open>
  \<^verbatim>\<open>Hour.__contains__\<close>: a datetime is reduced to its time of day, then
  \<^verbatim>\<open>self.open <= when < self.close\<close>; comparing a time with \<^verbatim>\<open>None\<close> raises TypeError.
\<close>

fun contains :: "Hour \<Rightarrow> pyarg \<Rightarrow> error + bool" where
  "contains self (PyDatetime w) = Inr (open self \<le> dt_time w \<and> dt_time w < close self)"
| "contains self (PyTime t) = Inr (open self \<le> t \<and> t < close self)"
| "contains self PyNone = Inl TypeError"

subsection \<open>Loading the schedule\<close>

text \<open>
  \<^verbatim>\<open>yaml.safe_load(HOURS_FILE)\<close> is the parsed schedule file, a parameter of the
  model: the items of \<^verbatim>\<open>raw_hours['hours']\<close> in order (day name, interval strings) and
  the entries of \<^verbatim>\<open>raw_hours['holidays']\<close> (start, end, reason, interval strings or
  null).
\<close>

record raw_holiday =
  h_start :: date
  h_end :: date
  h_reason :: string
  h_hours :: "string list option"

record raw_hours =
  yaml_hours :: "(string \<times> string list) list"
  yaml_holidays :: "raw_holiday list"

text \<open>\<^verbatim>\<open>s.split(c)\<close> for a one-character separator.\<close>

fun split :: "char \<Rightarrow> string \<Rightarrow> string list" where
  "split c [] = [[]]"
| "split c (x # xs) =
     (if x = c then [] # split c xs
      else (case split c xs of [] \<Rightarrow> [[x]] | y # ys \<Rightarrow> (x # y) # ys))"

definition isdigit :: "char \<Rightarrow> bool" where
  "isdigit c = (c \<in> set ''0123456789'')"

definition digit :: "char \<Rightarrow> nat" where
  "digit c = of_char c - 48"

text \<open>
  \<^verbatim>\<open>datetime.strptime(t, '%H:%M').time()\<close>. The format compiles to the regular
  expression \<^verbatim>\<open>(2[0-3]|[0-1]\d|\d):([0-5]\d|\d)\<close>, matched at the start of the string;
  the alternatives are listed in the order the matcher tries them, and characters left
  after the first match raise ValueError, as does no match at all.
\<close>

fun alts_H :: "string \<Rightarrow> (nat \<times> string) list" where
  "alts_H [] = []"
| "alts_H [a] = (if isdigit a then [(digit a, [])] else [])"
| "alts_H (a # b # r) =
     (if a = CHR ''2'' \<and> b \<in> set ''0123'' then [(20 + digit b, r)] else [])
     @ (if a \<in> set ''01'' \<and> isdigit b then [(10 * digit a + digit b, r)] else [])
     @ (if isdigit a then [(digit a, b # r)] else [])"

fun alts_M :: "string \<Rightarrow> (nat \<times> string) list" where
  "alts_M [] = []"
| "alts_M [a] = (if isdigit a then [(digit a, [])] else [])"
| "alts_M (a # b # r) =
     (if a \<in> set ''012345'' \<and> isdigit b then [(10 * digit a + digit b, r)] else [])
     @ (if isdigit a then [(digit a, b # r)] else [])"

definition parsetime :: "string \<Rightarrow> error + time" where
  "parsetime t =
     (case concat (map (\<lambda>(h, r). case r of
                          [] \<Rightarrow> []
                        | c # r' \<Rightarrow> if c = CHR '':'' then map (\<lambda>(m, rest). (h, m, rest)) (alts_M r') else [])
                      (alts_H t)) of
        [] \<Rightarrow> Inl ValueError
      | (h, m, rest) # _ \<Rightarrow> if rest = [] then Inr (hm h m) else Inl ValueError)"

text \<open>
  One interval string: \<^verbatim>\<open>x = hour.split('-')\<close>, then
  \<^verbatim>\<open>Hour(open=_parsetime(x[0]), close=_parsetime(x[1]))\<close>, arguments evaluated left to right.
\<close>

definition parse_hour :: "string \<Rightarrow> error + Hour" where
  "parse_hour hour =
     (let x = split CHR ''-'' hour in
      case getitem x 0 of Inl e \<Rightarrow> Inl e | Inr x0 \<Rightarrow>
      case parsetime x0 of Inl e \<Rightarrow> Inl e | Inr op \<Rightarrow>
      case getitem x 1 of Inl e \<Rightarrow> Inl e | Inr x1 \<Rightarrow>
      case parsetime x1 of Inl e \<Rightarrow> Inl e | Inr cl \<Rightarrow>
      Inr \<lparr>open = op, close = cl\<rparr>)"

text \<open>The inner loops that build \<^verbatim>\<open>i_hours\<close>.\<close>

fun parse_hours :: "string list \<Rightarrow> error + Hour list" where
  "parse_hours [] = Inr []"
| "parse_hours (hour # rest) =
     (case parse_hour hour of Inl e \<Rightarrow> Inl e | Inr h \<Rightarrow>
      case parse_hours rest of Inl e \<Rightarrow> Inl e | Inr hs \<Rightarrow> Inr (h # hs))"

text \<open>
  The loop over \<^verbatim>\<open>raw_hours['hours'].items()\<close>, filling the dict
  \<^verbatim>\<open>regular_hours\<close>: the intervals are parsed first, then \<^verbatim>\<open>Days[day]\<close> is looked up.
\<close>

fun load_regular :: "(string \<times> string list) list \<Rightarrow> (Days \<rightharpoonup> Hour list) \<Rightarrow> error + (Days \<rightharpoonup> Hour list)" where
  "load_regular [] regular_hours = Inr regular_hours"
| "load_regular ((day, hours) # rest) regular_hours =
     (case parse_hours hours of Inl e \<Rightarrow> Inl e | Inr i_hours \<Rightarrow>
      case Days_of_name day of Inl e \<Rightarrow> Inl e | Inr d \<Rightarrow>
      load_regular rest (regular_hours(d \<mapsto> i_hours)))"

text \<open>The loop over \<^verbatim>\<open>raw_hours['holidays']\<close>; an empty or null hour list leaves \<^verbatim>\<open>i_hours\<close> empty.\<close>

fun load_holidays :: "raw_holiday list \<Rightarrow> error + (date \<times> date \<times> string \<times> Hour list) list" where
  "load_holidays [] = Inr []"
| "load_holidays (data # rest) =
     (case (case h_hours data of None \<Rightarrow> Inr [] | Some hs \<Rightarrow> parse_hours hs) of
        Inl e \<Rightarrow> Inl e
      | Inr i_hours \<Rightarrow>
          (case load_holidays rest of
             Inl e \<Rightarrow> Inl e
           | Inr hols \<Rightarrow> Inr ((h_start data, h_end data, h_reason data, i_hours) # hols)))"

definition generate_regular_hours ::
  "raw_hours \<Rightarrow> error + ((Days \<rightharpoonup> Hour list) \<times> (date \<times> date \<times> string \<times> Hour list) list)" where
  "generate_regular_hours raw =
     (case load_regular (yaml_hours raw) Map.empty of Inl e \<Rightarrow> Inl e | Inr regular_hours \<Rightarrow>
      case load_holidays (yaml_holidays raw) of Inl e \<Rightarrow> Inl e | Inr holidays \<Rightarrow>
      Inr (regular_hours, holidays))"

subsection \<open>Hours\<close>

record Hours =
  date :: date
  weekday :: string
  holiday :: "string option"
  hours :: "Hour list"

text \<open>The argument \<^verbatim>\<open>day\<close> of \<^verbatim>\<open>get_hours\<close>: omitted, a date, or a datetime.\<close>

datatype day_arg = DayNone | DayDate date | DayDatetime datetime

text \<open>
  The scan \<^verbatim>\<open>for start, end, name, hours in holidays: if start <= day <= end: ...; break\<close>,
  starting from \<^verbatim>\<open>(my_holiday, my_hours)\<close>.
\<close>

fun scan_holidays ::
  "(date \<times> date \<times> string \<times> Hour list) list \<Rightarrow> date \<Rightarrow> string option \<times> Hour list \<Rightarrow> string option \<times> Hour list" where
  "scan_holidays [] day my = my"
| "scan_holidays ((start, end, name, hs) # rest) day my =
     (if start \<le> day \<and> day \<le> end then (Some name, hs) else scan_holidays rest day my)"

text \<open>
  \<^verbatim>\<open>Hours.get_hours\<close>. The schedule file is loaded on every call; \<open>now\<close> is the clock,
  read by \<^verbatim>\<open>date.today()\<close> when no day is given.
\<close>

definition get_hours :: "raw_hours \<Rightarrow> datetime \<Rightarrow> day_arg \<Rightarrow> error + Hours" where
  "get_hours raw now day =
     (let day = (case day of DayNone \<Rightarrow> dt_date now | DayDate d \<Rightarrow> d | DayDatetime w \<Rightarrow> dt_date w) in
      case generate_regular_hours raw of Inl e \<Rightarrow> Inl e | Inr (regular, holidays) \<Rightarrow>
      case Days_of_value (date_weekday day) of Inl e \<Rightarrow> Inl e | Inr wd \<Rightarrow>
      case regular wd of None \<Rightarrow> Inl KeyError | Some my_hours \<Rightarrow>
      (let (my_holiday, my_hours) = scan_holidays holidays day (None, my_hours) in
       Inr \<lparr>date = day, weekday = strftime_A day, holiday = my_holiday, hours = my_hours\<rparr>))"

text \<open>
  \<^verbatim>\<open>Hours._validate_time\<close>. The last test is \<^verbatim>\<open>if not self.date != when.date()\<close>, and
  the function ends without a return statement, so it returns \<^verbatim>\<open>None\<close> when it does
  not raise.
\<close>

fun validate_time :: "datetime \<Rightarrow> Hours \<Rightarrow> pyarg \<Rightarrow> error + pyarg" where
  "validate_time now self PyNone = Inr (PyDatetime now)"
| "validate_time now self (PyTime t) = Inl ValueError"
| "validate_time now self (PyDatetime when) =
     (if \<not> (date self \<noteq> dt_date when) then Inl ValueError else Inr PyNone)"

text \<open>\<^verbatim>\<open>any(when in hour for hour in self.hours)\<close>, stopping at the first true element.\<close>

fun any_contains :: "pyarg \<Rightarrow> Hour list \<Rightarrow> error + bool" where
  "any_contains when [] = Inr False"
| "any_contains when (hour # rest) =
     (case contains hour when of
        Inl e \<Rightarrow> Inl e
      | Inr b \<Rightarrow> if b then Inr True else any_contains when rest)"

definition lab_is_open :: "datetime \<Rightarrow> Hours \<Rightarrow> pyarg \<Rightarrow> error + bool" where
  "lab_is_open now self when =
     (case validate_time now self when of Inl e \<Rightarrow> Inl e | Inr when \<Rightarrow>
      any_contains when (hours self))"

text \<open>The local function \<^verbatim>\<open>date_opens\<close> of \<^verbatim>\<open>time_to_open\<close>.\<close>

definition date_opens :: "raw_hours \<Rightarrow> datetime \<Rightarrow> date \<Rightarrow> error + datetime list" where
  "date_opens raw now d =
     (case get_hours raw now (DayDate d) of Inl e \<Rightarrow> Inl e | Inr h \<Rightarrow>
      Inr (map (\<lambda>h. combine d (open h)) (hours h)))"

text \<open>\<^verbatim>\<open>[o for o in opens if o > when]\<close>.\<close>

fun opens_after :: "datetime list \<Rightarrow> pyarg \<Rightarrow> error + datetime list" where
  "opens_after [] when = Inr []"
| "opens_after (o1 # rest) when =
     (case datetime_gt o1 when of Inl e \<Rightarrow> Inl e | Inr b \<Rightarrow>
      case opens_after rest when of Inl e \<Rightarrow> Inl e | Inr os \<Rightarrow>
      Inr (if b then o1 # os else os))"

text \<open>
  The loop \<^verbatim>\<open>while not opens: date += timedelta(days=1); opens = date_opens(date)\<close>.
  It has no bound of its own; the increment raises OverflowError after 9999-12-31.
\<close>

function next_opens :: "raw_hours \<Rightarrow> datetime \<Rightarrow> date \<Rightarrow> datetime list \<Rightarrow> error + datetime list" where
  "next_opens raw now d opens =
     (if opens \<noteq> [] then Inr opens
      else (case date_add_days d 1 of
              Inl e \<Rightarrow> Inl e
            | Inr d' \<Rightarrow>
                (case date_opens raw now d' of
                   Inl e \<Rightarrow> Inl e
                 | Inr opens' \<Rightarrow> next_opens raw now d' opens')))"
  by pat_completeness auto
termination
  by (relation "measure (\<lambda>(raw, now, d, opens). nat (MAXORDINAL - d))")
     (auto simp: date_add_days_def split: if_splits)

declare next_opens.simps [simp del]

definition time_to_open :: "raw_hours \<Rightarrow> datetime \<Rightarrow> Hours \<Rightarrow> pyarg \<Rightarrow> error + timedelta" where
  "time_to_open raw now self when =
     (case validate_time now self when of Inl e \<Rightarrow> Inl e | Inr when \<Rightarrow>
      case lab_is_open now self when of Inl e \<Rightarrow> Inl e | Inr is_open \<Rightarrow>
      if is_open then Inr 0 else
      case date_opens raw now (date self) of Inl e \<Rightarrow> Inl e | Inr opens \<Rightarrow>
      case opens_after opens when of Inl e \<Rightarrow> Inl e | Inr opens \<Rightarrow>
      case next_opens raw now (date self) opens of Inl e \<Rightarrow> Inl e | Inr opens \<Rightarrow>
      case getitem opens 0 of Inl e \<Rightarrow> Inl e | Inr o1 \<Rightarrow>
      datetime_minus o1 when)"

text \<open>\<^verbatim>\<open>[hour for hour in self.hours if when in hour]\<close>.\<close>

fun hours_containing :: "Hour list \<Rightarrow> pyarg \<Rightarrow> error + Hour list" where
  "hours_containing [] when = Inr []"
| "hours_containing (hour # rest) when =
     (case contains hour when of Inl e \<Rightarrow> Inl e | Inr b \<Rightarrow>
      case hours_containing rest when of Inl e \<Rightarrow> Inl e | Inr hs \<Rightarrow>
      Inr (if b then hour # hs else hs))"

definition time_to_close :: "datetime \<Rightarrow> Hours \<Rightarrow> pyarg \<Rightarrow> error + timedelta" where
  "time_to_close now self when =
     (case validate_time now self when of Inl e \<Rightarrow> Inl e | Inr when \<Rightarrow>
      case hours_containing (hours self) when of Inl e \<Rightarrow> Inl e | Inr hs \<Rightarrow>
      (case hs of [] \<Rightarrow> Inr 0 | h # _ \<Rightarrow> datetime_minus (combine (date self) (close h)) when))"

definition closed_all_day :: "Hours \<Rightarrow> bool" where
  "closed_all_day self = (hours self = [])"

section \<open>ocflib.printing.quota\<close>

definition WEEKDAY_QUOTA :: int where
  "WEEKDAY_QUOTA = 8"

definition WEEKEND_QUOTA :: int where
  "WEEKEND_QUOTA = 16"

definition SEMESTERLY_QUOTA :: int where
  "SEMESTERLY_QUOTA = 100"

text \<open>A Python value held in a field of a record or passed as a statement parameter.\<close>

datatype pyval = Str string | Int int | Datetime datetime | NoneVal

record UserQuota =
  user :: string
  daily :: int
  semesterly :: int

record Job =
  user :: pyval
  time :: pyval
  pages :: pyval
  queue :: pyval
  printer :: pyval
  doc_name :: pyval
  filesize :: pyval

record Refund =
  user :: pyval
  time :: pyval
  pages :: pyval
  staffer :: pyval
  reason :: pyval

text \<open>
  \<^verbatim>\<open>daily_quota\<close>: a missing day is \<^verbatim>\<open>datetime.today()\<close>, the clock \<open>now\<close>; the
  weekday of a datetime is that of its date.
\<close>

definition daily_quota :: "datetime \<Rightarrow> day_arg \<Rightarrow> int" where
  "daily_quota now day =
     (let day = (case day of DayNone \<Rightarrow> dt_date now | DayDate d \<Rightarrow> d | DayDatetime w \<Rightarrow> dt_date w) in
      if date_weekday day \<in> {5, 6} then WEEKEND_QUOTA else WEEKDAY_QUOTA)"

text \<open>
  The database cursor \<^verbatim>\<open>c\<close>. The storage behind it is a collaborator: \<open>answer\<close>
  gives the rows it returns for a statement and its parameters (for the query of
  \<^verbatim>\<open>get_quota\<close>, dicts with the keys \<^verbatim>\<open>today\<close> and \<^verbatim>\<open>semester\<close>). The cursor
  records each statement passed to \<^verbatim>\<open>execute\<close> and holds the rows not yet fetched.
\<close>

record row =
  today :: int
  semester :: int

record cursor =
  answer :: "string \<Rightarrow> pyval list \<Rightarrow> row list"
  executed :: "(string \<times> pyval list) list"
  rows :: "row list"

definition execute :: "cursor \<Rightarrow> string \<Rightarrow> pyval list \<Rightarrow> cursor" where
  "execute c query args = c\<lparr>executed := executed c @ [(query, args)], rows := answer c query args\<rparr>"

definition fetchone :: "cursor \<Rightarrow> row option \<times> cursor" where
  "fetchone c = (case rows c of [] \<Rightarrow> (None, c) | r # rest \<Rightarrow> (Some r, c\<lparr>rows := rest\<rparr>))"

definition get_quota :: "datetime \<Rightarrow> cursor \<Rightarrow> string \<Rightarrow> UserQuota \<times> cursor" where
  "get_quota now c name =
     (if name = ''pubstaff'' then (\<lparr>UserQuota.user = ''pubstaff'', daily = 500, semesterly = 500\<rparr>, c)
      else
        (let c = execute c ''SELECT `today`, `semester` FROM `printed` WHERE `user` = %s'' [Str name];
             (row, c) = fetchone c;
             row = (case row of None \<Rightarrow> \<lparr>today = 0, semester = 0\<rparr> | Some r \<Rightarrow> r);
             sem = max 0 (SEMESTERLY_QUOTA - semester row)
         in (\<lparr>UserQuota.user = name,
              daily = max 0 (min sem (daily_quota now DayNone - today row)),
              semesterly = sem\<rparr>, c)))"

text \<open>
  A namedtuple seen through \<^verbatim>\<open>_fields\<close> and \<^verbatim>\<open>getattr\<close>: its field names in
  declared order, each with its value.
\<close>

type_synonym namedtuple = "(string \<times> pyval) list"

definition Job_namedtuple :: "Job \<Rightarrow> namedtuple" where
  "Job_namedtuple job =
     [(''user'', Job.user job), (''time'', Job.time job), (''pages'', Job.pages job),
      (''queue'', queue job), (''printer'', printer job), (''doc_name'', doc_name job),
      (''filesize'', filesize job)]"

definition Refund_namedtuple :: "Refund \<Rightarrow> namedtuple" where
  "Refund_namedtuple refund =
     [(''user'', Refund.user refund), (''time'', Refund.time refund), (''pages'', Refund.pages refund),
      (''staffer'', staffer refund), (''reason'', reason refund)]"

definition fields :: "namedtuple \<Rightarrow> string list" where
  "fields nt = map fst nt"

definition getattr :: "namedtuple \<Rightarrow> string \<Rightarrow> error + pyval" where
  "getattr nt column = (case map_of nt column of None \<Rightarrow> Inl AttributeError | Some v \<Rightarrow> Inr v)"

text \<open>\<^verbatim>\<open>sep.join(xs)\<close>.\<close>

fun join :: "string \<Rightarrow> string list \<Rightarrow> string" where
  "join sep [] = []"
| "join sep [x] = x"
| "join sep (x # y # rest) = x @ sep @ join sep (y # rest)"

text \<open>
  \<^verbatim>\<open>template.format(*args)\<close> for a template whose only braces are the replacement
  fields \<^verbatim>\<open>{}\<close>, as in the two statements below: each field takes the next argument,
  and a field without an argument raises IndexError.
\<close>

fun format :: "string \<Rightarrow> string list \<Rightarrow> error + string" where
  "format [] args = Inr []"
| "format [c] args = Inr [c]"
| "format (c # d # rest) args =
     (if c = CHR ''{'' \<and> d = CHR ''}'' then
        (case args of
           [] \<Rightarrow> Inl IndexError
         | a # args' \<Rightarrow> (case format rest args' of Inl e \<Rightarrow> Inl e | Inr s \<Rightarrow> Inr (a @ s)))
      else (case format (d # rest) args of Inl e \<Rightarrow> Inl e | Inr s \<Rightarrow> Inr (c # s)))"

text \<open>\<^verbatim>\<open>tuple(getattr(nt, column) for column in nt._fields)\<close>.\<close>

fun getattrs :: "namedtuple \<Rightarrow> string list \<Rightarrow> error + pyval list" where
  "getattrs nt [] = Inr []"
| "getattrs nt (column # rest) =
     (case getattr nt column of Inl e \<Rightarrow> Inl e | Inr v \<Rightarrow>
      case getattrs nt rest of Inl e \<Rightarrow> Inl e | Inr vs \<Rightarrow> Inr (v # vs))"

definition namedtuple_to_query :: "string \<Rightarrow> namedtuple \<Rightarrow> error + (string \<times> pyval list)" where
  "namedtuple_to_query query nt =
     (case format query
             [join '', '' (map (\<lambda>column. [CHR 0x60] @ column @ [CHR 0x60]) (fields nt)),
              join '', '' (map (\<lambda>_. ''%s'') (fields nt))] of
        Inl e \<Rightarrow> Inl e
      | Inr q \<Rightarrow> (case getattrs nt (fields nt) of Inl e \<Rightarrow> Inl e | Inr args \<Rightarrow> Inr (q, args)))"

definition add_job :: "cursor \<Rightarrow> Job \<Rightarrow> error + cursor" where
  "add_job c job =
     (case namedtuple_to_query ''INSERT INTO jobs ({}) VALUES ({})'' (Job_namedtuple job) of
        Inl e \<Rightarrow> Inl e
      | Inr (q, args) \<Rightarrow> Inr (execute c q args))"

definition add_refund :: "cursor \<Rightarrow> Refund \<Rightarrow> error + cursor" where
  "add_refund c refund =
     (case namedtuple_to_query ''INSERT INTO refunds ({}) VALUES ({})'' (Refund_namedtuple refund) of
        Inl e \<Rightarrow> Inl e
      | Inr (q, args) \<Rightarrow> Inr (execute c q args))"

section \<open>Example schedules\<close>

text \<open>
  A schedule file that names only Monday, and the Hours it resolves for Monday
  2015-10-12.
\<close>

definition monday_config :: raw_hours where
  "monday_config = \<lparr>yaml_hours = [(''Monday'', [''09:00-21:00''])], yaml_holidays = []\<rparr>"

definition monday_hours :: Hours where
  "monday_hours = \<lparr>date = ymd 2015 10 12, weekday = ''Monday'', holiday = None,
                    hours = [\<lparr>open = hm 9 0, close = hm 21 0\<rparr>]\<rparr>"

text \<open>A Monday with two adjacent intervals, 09:00-12:00 and 12:00-18:00.\<close>

definition split_shift_hours :: Hours where
  "split_shift_hours = \<lparr>date = ymd 2015 10 12, weekday = ''Monday'', holiday = None,
                    hours = [\<lparr>open = hm 9 0, close = hm 12 0\<rparr>, \<lparr>open = hm 12 0, close = hm 18 0\<rparr>]\<rparr>"

text \<open>
  A template that names only Friday, with two holidays: one day with its own hours, then
  a range without hours that overlaps it and runs from a Friday to a Saturday.
\<close>

definition holiday_config :: raw_hours where
  "holiday_config =
     \<lparr>yaml_hours = [(''Friday'', [''09:00-21:00''])],
      yaml_holidays =
        [\<lparr>h_start = ymd 2015 11 27, h_end = ymd 2015 11 27,
          h_reason = ''Thanksgiving'', h_hours = Some [''11:00-15:00'']\<rparr>,
         \<lparr>h_start = ymd 2015 11 27, h_end = ymd 2015 12 26,
          h_reason = ''Winter break'', h_hours = None\<rparr>]\<rparr>"

text \<open>All seven weekdays present, none with an interval, no holidays.\<close>

definition closed_config :: raw_hours where
  "closed_config =
     \<lparr>yaml_hours = [(''Monday'', []), (''Tuesday'', []), (''Wednesday'', []), (''Thursday'', []),
                    (''Friday'', []), (''Saturday'', []), (''Sunday'', [])],
      yaml_holidays = []\<rparr>"

text \<open>Open 09:00-21:00 from Monday to Friday, closed at the weekend.\<close>

definition weekday_config :: raw_hours where
  "weekday_config =
     \<lparr>yaml_hours = [(''Monday'', [''09:00-21:00'']), (''Tuesday'', [''09:00-21:00'']),
                    (''Wednesday'', [''09:00-21:00'']), (''Thursday'', [''09:00-21:00'']),
                    (''Friday'', [''09:00-21:00'']), (''Saturday'', []), (''Sunday'', [])],
      yaml_holidays = []\<rparr>"

section \<open>Properties of ocflib.printing.quota\<close>

text \<open>
  C7. For every user, clock and storage answer, the quota returned by \<^verbatim>\<open>get_quota\<close>
  has a non-negative daily allowance, a non-negative semesterly allowance, and a daily
  allowance that does not exceed the semesterly one. This covers the fixed pair of the
  \<^verbatim>\<open>pubstaff\<close> account as well.
\<close>

theorem get_quota_bounds:
  "0 \<le> daily (fst (get_quota now c name))
   \<and> 0 \<le> semesterly (fst (get_quota now c name))
   \<and> daily (fst (get_quota now c name)) \<le> semesterly (fst (get_quota now c name))"
  by (simp add: get_quota_def Let_def split: prod.split)

text \<open>
  C6. For a user other than \<^verbatim>\<open>pubstaff\<close>, \<^verbatim>\<open>get_quota\<close> takes the page counts of
  the first row the storage returns for the user, or zero for both when there is no row,
  and returns semesterly = max(0, SEMESTERLY_QUOTA - semester) and
  daily = max(0, min(semesterly, daily_quota() - today)). With the caps 8 and 100, a
  weekday, 3 pages today and 98 this semester, both allowances are 2.
\<close>

theorem get_quota_value:
  assumes "name \<noteq> ''pubstaff''"
  shows "fst (get_quota now c name) =
           (let (today_used, semester_used) =
                  (case answer c ''SELECT `today`, `semester` FROM `printed` WHERE `user` = %s'' [Str name] of
                     [] \<Rightarrow> (0, 0)
                   | r # _ \<Rightarrow> (today r, semester r));
                semesterly_left = max 0 (SEMESTERLY_QUOTA - semester_used)
            in \<lparr>UserQuota.user = name,
                daily = max 0 (min semesterly_left (daily_quota now DayNone - today_used)),
                semesterly = semesterly_left\<rparr>)
         \<and> (WEEKDAY_QUOTA = 8 \<and> SEMESTERLY_QUOTA = 100)
         \<and> (date_weekday (dt_date now) \<notin> {5, 6}
              \<and> answer c ''SELECT `today`, `semester` FROM `printed` WHERE `user` = %s'' [Str name]
                  = [\<lparr>today = 3, semester = 98\<rparr>]
             \<longrightarrow> semesterly (fst (get_quota now c name)) = 2 \<and> daily (fst (get_quota now c name)) = 2)"
  using assms
  by (auto simp: get_quota_def Let_def execute_def fetchone_def daily_quota_def
        WEEKDAY_QUOTA_def SEMESTERLY_QUOTA_def split: prod.split list.split)

text \<open>
  The example of C6 on Monday 2015-10-12 (ordinal 735883), for a storage that answers
  every query with the row (3, 98).
\<close>

theorem get_quota_value_witness:
  "''alice'' \<noteq> ''pubstaff''
   \<and> date_weekday (dt_date \<lparr>dt_date = 735883, dt_time = 0\<rparr>) \<notin> {5, 6}
   \<and> fst (get_quota \<lparr>dt_date = 735883, dt_time = 0\<rparr>
             \<lparr>answer = (\<lambda>q args. [\<lparr>today = 3, semester = 98\<rparr>]), executed = [], rows = []\<rparr> ''alice'')
       = \<lparr>UserQuota.user = ''alice'', daily = 2, semesterly = 2\<rparr>"
  using get_quota_value [of "''alice''" "\<lparr>dt_date = 735883, dt_time = 0\<rparr>"
      "\<lparr>answer = (\<lambda>q args. [\<lparr>today = 3, semester = 98\<rparr>]), executed = [], rows = []\<rparr>"]
  by (simp add: date_weekday_def daily_quota_def WEEKDAY_QUOTA_def SEMESTERLY_QUOTA_def)

text \<open>The statements \<^verbatim>\<open>add_job\<close> and \<^verbatim>\<open>add_refund\<close> pass to \<^verbatim>\<open>execute\<close>.\<close>

lemma add_job_eq:
  "add_job c job =
     Inr (execute c
       ''INSERT INTO jobs (`user`, `time`, `pages`, `queue`, `printer`, `doc_name`, `filesize`) VALUES (%s, %s, %s, %s, %s, %s, %s)''
       [Job.user job, Job.time job, Job.pages job, queue job, printer job, doc_name job, filesize job])"
  by (simp add: add_job_def namedtuple_to_query_def Job_namedtuple_def fields_def getattr_def)

lemma add_refund_eq:
  "add_refund c refund =
     Inr (execute c
       ''INSERT INTO refunds (`user`, `time`, `pages`, `staffer`, `reason`) VALUES (%s, %s, %s, %s, %s)''
       [Refund.user refund, Refund.time refund, Refund.pages refund, staffer refund, reason refund])"
  by (simp add: add_refund_def namedtuple_to_query_def Refund_namedtuple_def fields_def getattr_def)

text \<open>
  C10. For every Job, \<^verbatim>\<open>add_job\<close> succeeds and adds exactly one statement to those the
  cursor has executed: the INSERT into \<^verbatim>\<open>jobs\<close> whose column list is the seven fields
  of the record in declared order, with one placeholder per field, and whose parameters
  are the seven field values in the same order, unchanged. \<^verbatim>\<open>add_refund\<close> does the same
  with the five fields of a Refund and the table \<^verbatim>\<open>refunds\<close>. Neither reads the
  storage or changes what it answers.
\<close>

theorem add_job_add_refund_single_insert:
  "(\<exists>c'. add_job c job = Inr c'
      \<and> executed c' = executed c @
           [(''INSERT INTO jobs (`user`, `time`, `pages`, `queue`, `printer`, `doc_name`, `filesize`) VALUES (%s, %s, %s, %s, %s, %s, %s)'',
             [Job.user job, Job.time job, Job.pages job, queue job, printer job, doc_name job, filesize job])]
      \<and> answer c' = answer c)
   \<and> (\<exists>c'. add_refund c refund = Inr c'
      \<and> executed c' = executed c @
           [(''INSERT INTO refunds (`user`, `time`, `pages`, `staffer`, `reason`) VALUES (%s, %s, %s, %s, %s)'',
             [Refund.user refund, Refund.time refund, Refund.pages refund, staffer refund, reason refund])]
      \<and> answer c' = answer c)"
  unfolding add_job_eq add_refund_eq by (simp add: execute_def)

section \<open>Properties of ocflib.lab.hours\<close>

subsection \<open>Helper lemmas\<close>

lemma any_contains_None: "any_contains PyNone hs = (if hs = [] then Inr False else Inl TypeError)"
  by (cases hs) simp_all

lemma hours_containing_None: "hours_containing hs PyNone = (if hs = [] then Inr [] else Inl TypeError)"
  by (cases hs) simp_all

lemma opens_after_None: "opens_after os PyNone = (if os = [] then Inr [] else Inl TypeError)"
  by (cases os) simp_all

lemma any_contains_datetime:
  "any_contains (PyDatetime w) hs = Inr (\<exists>hr \<in> set hs. open hr \<le> dt_time w \<and> dt_time w < close hr)"
  by (induction hs) auto

lemma time_to_open_None_when:
  "time_to_open raw now self (PyDatetime when) = Inr 0 \<or> isl (time_to_open raw now self (PyDatetime when))"
  by (auto simp: time_to_open_def lab_is_open_def any_contains_datetime opens_after_None getitem_def
      split: sum.splits if_splits)

lemma find_snoc:
  "find P (xs @ [x]) = (case find P xs of None \<Rightarrow> (if P x then Some x else None) | Some y \<Rightarrow> Some y)"
  by (induction xs) simp_all

lemma load_regular_last:
  "load_regular items m = Inr regular \<Longrightarrow>
     (case find (\<lambda>(day, strs). Days_of_name day = Inr wd) (rev items) of
        None \<Rightarrow> regular wd = m wd
      | Some (day, strs) \<Rightarrow> (\<exists>hs. parse_hours strs = Inr hs \<and> regular wd = Some hs))"
proof (induction items arbitrary: m)
  case Nil
  then show ?case by simp
next
  case (Cons item items)
  obtain day0 strs0 where item: "item = (day0, strs0)" by (cases item)
  from Cons.prems item obtain i_hours wd' where
    p: "parse_hours strs0 = Inr i_hours" and
    wd': "Days_of_name day0 = Inr wd'" and
    rest: "load_regular items (m(wd' \<mapsto> i_hours)) = Inr regular"
    by (auto split: sum.splits)
  from Cons.IH [OF rest] p wd' item show ?case
    by (auto simp: find_snoc split: option.splits)
qed

lemma load_holidays_scan:
  "load_holidays raws = Inr holidays \<Longrightarrow>
     (case find (\<lambda>data. h_start data \<le> d \<and> d \<le> h_end data) raws of
        None \<Rightarrow> scan_holidays holidays d my = my
      | Some data \<Rightarrow>
          (\<exists>hs. (case h_hours data of None \<Rightarrow> Inr [] | Some strs \<Rightarrow> parse_hours strs) = Inr hs
              \<and> scan_holidays holidays d my = (Some (h_reason data), hs)))"
proof (induction raws arbitrary: holidays)
  case Nil
  then show ?case by simp
next
  case (Cons data raws)
  from Cons.prems obtain i_hours hols where
    p: "(case h_hours data of None \<Rightarrow> Inr [] | Some strs \<Rightarrow> parse_hours strs) = Inr i_hours" and
    rest: "load_holidays raws = Inr hols" and
    h: "holidays = (h_start data, h_end data, h_reason data, i_hours) # hols"
    by (auto split: sum.splits)
  from Cons.IH [OF rest] p h show ?case
    by (auto split: option.splits)
qed

lemma load_regular_entry:
  "load_regular items m = Inr regular \<Longrightarrow>
     (regular wd \<noteq> None) = (m wd \<noteq> None \<or> (\<exists>day \<in> fst ` set items. Days_of_name day = Inr wd))"
proof (induction items arbitrary: m)
  case Nil
  then show ?case by simp
next
  case (Cons item items)
  obtain day hs where item: "item = (day, hs)" by (cases item)
  from Cons.prems item obtain i_hours wd' where
    wd': "Days_of_name day = Inr wd'" and
    rest: "load_regular items (m(wd' \<mapsto> i_hours)) = Inr regular"
    by (auto split: sum.splits)
  have "(regular wd \<noteq> None) =
          ((m(wd' \<mapsto> i_hours)) wd \<noteq> None \<or> (\<exists>day \<in> fst ` set items. Days_of_name day = Inr wd))"
    by (rule Cons.IH [OF rest])
  also have "\<dots> = (m wd \<noteq> None \<or> (\<exists>day \<in> fst ` set (item # items). Days_of_name day = Inr wd))"
    using wd' item by auto
  finally show ?case .
qed

lemma parse_nine_to_nine: "parse_hours [''09:00-21:00''] = Inr [\<lparr>open = hm 9 0, close = hm 21 0\<rparr>]"
  by code_simp

lemma monday_config_loaded:
  "generate_regular_hours monday_config =
     Inr (Map.empty(Monday \<mapsto> [\<lparr>open = hm 9 0, close = hm 21 0\<rparr>]), [])"
  by (simp add: generate_regular_hours_def monday_config_def parse_nine_to_nine Days_of_name_def
      del: parse_hours.simps)

lemma Days_of_value_weekday: "\<exists>wd. Days_of_value (date_weekday d) = Inr wd"
proof -
  have "0 \<le> date_weekday d" "date_weekday d < 7" by (simp_all add: date_weekday_def)
  then have "date_weekday d \<in> {0, 1, 2, 3, 4, 5, 6}" by auto
  then show ?thesis by (auto simp: Days_of_value_def)
qed

lemma closed_config_loaded:
  "generate_regular_hours closed_config =
     Inr (Map.empty(Monday \<mapsto> [], Tuesday \<mapsto> [], Wednesday \<mapsto> [], Thursday \<mapsto> [],
            Friday \<mapsto> [], Saturday \<mapsto> [], Sunday \<mapsto> []), [])"
  by (simp add: generate_regular_hours_def closed_config_def Days_of_name_def)

lemma closed_config_date_opens: "date_opens closed_config now d = Inr []"
proof -
  obtain wd where wd: "Days_of_value (date_weekday d) = Inr wd"
    using Days_of_value_weekday by blast
  show ?thesis
    by (cases wd) (simp_all add: date_opens_def get_hours_def closed_config_loaded wd)
qed

text \<open>The search loop of \<^verbatim>\<open>time_to_open\<close>, one iteration at a time.\<close>

lemma next_opens_nonempty: "opens \<noteq> [] \<Longrightarrow> next_opens raw now d opens = Inr opens"
  by (subst next_opens.simps) simp

lemma next_opens_step:
  "1 \<le> d + 1 \<Longrightarrow> d + 1 \<le> MAXORDINAL \<Longrightarrow> date_opens raw now (d + 1) = Inr os \<Longrightarrow>
     next_opens raw now d [] = next_opens raw now (d + 1) os"
  by (subst next_opens.simps) (simp add: date_add_days_def)

lemma next_opens_last: "MAXORDINAL < d + 1 \<Longrightarrow> next_opens raw now d [] = Inl OverflowError"
  by (subst next_opens.simps) (simp add: date_add_days_def)

lemma next_opens_overflow:
  assumes "0 \<le> d"
      and "\<forall>d'. d < d' \<and> d' \<le> MAXORDINAL \<longrightarrow> date_opens raw now d' = Inr []"
  shows "next_opens raw now d [] = Inl OverflowError"
  using assms
proof (induction "nat (MAXORDINAL - d)" arbitrary: d rule: less_induct)
  case less
  show ?case
  proof (cases "d + 1 \<le> MAXORDINAL")
    case False
    then show ?thesis by (simp add: next_opens_last)
  next
    case True
    have e: "date_opens raw now (d + 1) = Inr []" using less.prems True by simp
    have "next_opens raw now d [] = next_opens raw now (d + 1) []"
      using less.prems True e by (simp add: next_opens_step)
    also have "\<dots> = Inl OverflowError"
      using less.prems True by (intro less.hyps) auto
    finally show ?thesis .
  qed
qed

lemma next_opens_found:
  assumes "0 \<le> d" and "d < d'" and "d' \<le> MAXORDINAL"
      and "\<forall>d''. d < d'' \<and> d'' < d' \<longrightarrow> date_opens raw now d'' = Inr []"
      and "date_opens raw now d' = Inr os" and "os \<noteq> []"
  shows "next_opens raw now d [] = Inr os"
  using assms
proof (induction "nat (d' - d)" arbitrary: d rule: less_induct)
  case less
  show ?case
  proof (cases "d + 1 = d'")
    case True
    then have "next_opens raw now d [] = next_opens raw now d' os"
      using less.prems next_opens_step [of d raw now os] by simp
    then show ?thesis using less.prems by (simp add: next_opens_nonempty)
  next
    case False
    have e: "date_opens raw now (d + 1) = Inr []" using less.prems False by simp
    have "next_opens raw now d [] = next_opens raw now (d + 1) []"
      using less.prems e by (simp add: next_opens_step)
    also have "\<dots> = Inr os"
      using less.prems False by (intro less.hyps) auto
    finally show ?thesis .
  qed
qed

subsection \<open>Validation of \<^verbatim>\<open>when\<close>\<close>

text \<open>
  C1. The stated behaviour is that a \<^verbatim>\<open>when\<close> on another date than the Hours is
  rejected with ValueError and a \<^verbatim>\<open>when\<close> on the same date is accepted. The test in
  \<^verbatim>\<open>_validate_time\<close> is \<^verbatim>\<open>if not self.date != when.date()\<close>, which raises when the
  dates are equal, under the message "is on a different day than". Evaluated for the
  Hours of Monday 2015-10-12: with \<^verbatim>\<open>when\<close> at 10:00 on that same day,
  \<^verbatim>\<open>lab_is_open\<close>, \<^verbatim>\<open>time_to_open\<close> and \<^verbatim>\<open>time_to_close\<close> all raise ValueError,
  and with \<^verbatim>\<open>when\<close> on the next day the validation does not raise.
\<close>

theorem validate_time_rejects_same_day:
  "lab_is_open \<lparr>dt_date = ymd 2015 10 12, dt_time = hm 8 0\<rparr> monday_hours
       (PyDatetime \<lparr>dt_date = ymd 2015 10 12, dt_time = hm 10 0\<rparr>) = Inl ValueError
   \<and> time_to_open monday_config \<lparr>dt_date = ymd 2015 10 12, dt_time = hm 8 0\<rparr> monday_hours
       (PyDatetime \<lparr>dt_date = ymd 2015 10 12, dt_time = hm 10 0\<rparr>) = Inl ValueError
   \<and> time_to_close \<lparr>dt_date = ymd 2015 10 12, dt_time = hm 8 0\<rparr> monday_hours
       (PyDatetime \<lparr>dt_date = ymd 2015 10 12, dt_time = hm 10 0\<rparr>) = Inl ValueError
   \<and> validate_time \<lparr>dt_date = ymd 2015 10 12, dt_time = hm 8 0\<rparr> monday_hours
       (PyDatetime \<lparr>dt_date = ymd 2015 10 13, dt_time = hm 10 0\<rparr>) = Inr PyNone"
  by code_simp

text \<open>
  C3. \<^verbatim>\<open>_validate_time\<close> returns the current instant when \<^verbatim>\<open>when\<close> is omitted. For
  an explicit datetime it either raises ValueError or returns \<^verbatim>\<open>None\<close>. In the second
  case the three methods go on with \<^verbatim>\<open>None\<close> in place of the supplied instant:
  \<^verbatim>\<open>lab_is_open\<close> and \<^verbatim>\<open>time_to_close\<close> raise TypeError from the membership test as
  soon as the Hours has an interval (and return False and zero when it has none),
  \<^verbatim>\<open>time_to_open\<close> returns zero or raises, and its result is the same for every
  supplied instant that passes the validation.
\<close>

theorem validate_time_returns_None:
  "validate_time now self PyNone = Inr (PyDatetime now)
   \<and> (validate_time now self (PyDatetime when) = Inl ValueError
        \<or> validate_time now self (PyDatetime when) = Inr PyNone)
   \<and> (validate_time now self (PyDatetime when) = Inr PyNone \<longrightarrow>
         lab_is_open now self (PyDatetime when) = (if hours self = [] then Inr False else Inl TypeError)
       \<and> time_to_close now self (PyDatetime when) = (if hours self = [] then Inr 0 else Inl TypeError)
       \<and> (time_to_open raw now self (PyDatetime when) = Inr 0
            \<or> isl (time_to_open raw now self (PyDatetime when)))
       \<and> (\<forall>when'. validate_time now self (PyDatetime when') = Inr PyNone \<longrightarrow>
             time_to_open raw now self (PyDatetime when') = time_to_open raw now self (PyDatetime when)))"
proof -
  have a: "validate_time now self PyNone = Inr (PyDatetime now)" by simp
  have b: "validate_time now self (PyDatetime when) = Inl ValueError
        \<or> validate_time now self (PyDatetime when) = Inr PyNone" by simp
  have c: "lab_is_open now self (PyDatetime when) = (if hours self = [] then Inr False else Inl TypeError)"
    if "validate_time now self (PyDatetime when) = Inr PyNone"
    using that by (simp add: lab_is_open_def any_contains_None)
  have d: "time_to_close now self (PyDatetime when) = (if hours self = [] then Inr 0 else Inl TypeError)"
    if "validate_time now self (PyDatetime when) = Inr PyNone"
    using that by (simp add: time_to_close_def hours_containing_None)
  have e: "time_to_open raw now self (PyDatetime when') = time_to_open raw now self (PyDatetime when)"
    if "validate_time now self (PyDatetime when) = Inr PyNone"
       "validate_time now self (PyDatetime when') = Inr PyNone" for when'
    using that by (simp add: time_to_open_def)
  from a b c d e time_to_open_None_when show ?thesis by blast
qed

text \<open>
  C3 on the Hours of Monday 2015-10-12 with \<^verbatim>\<open>when\<close> at 10:00 on the next day: the
  validation returns \<^verbatim>\<open>None\<close>, and the membership test raises TypeError.
\<close>

theorem validate_time_returns_None_witness:
  "validate_time \<lparr>dt_date = ymd 2015 10 12, dt_time = hm 8 0\<rparr> monday_hours
       (PyDatetime \<lparr>dt_date = ymd 2015 10 13, dt_time = hm 10 0\<rparr>) = Inr PyNone
   \<and> lab_is_open \<lparr>dt_date = ymd 2015 10 12, dt_time = hm 8 0\<rparr> monday_hours
       (PyDatetime \<lparr>dt_date = ymd 2015 10 13, dt_time = hm 10 0\<rparr>) = Inl TypeError
   \<and> time_to_close \<lparr>dt_date = ymd 2015 10 12, dt_time = hm 8 0\<rparr> monday_hours
       (PyDatetime \<lparr>dt_date = ymd 2015 10 13, dt_time = hm 10 0\<rparr>) = Inl TypeError"
proof -
  have v: "validate_time \<lparr>dt_date = ymd 2015 10 12, dt_time = hm 8 0\<rparr> monday_hours
       (PyDatetime \<lparr>dt_date = ymd 2015 10 13, dt_time = hm 10 0\<rparr>) = Inr PyNone"
    by code_simp
  have h: "hours monday_hours \<noteq> []" by (simp add: monday_hours_def)
  from v h validate_time_returns_None
    [of "\<lparr>dt_date = ymd 2015 10 12, dt_time = hm 8 0\<rparr>" monday_hours
        "\<lparr>dt_date = ymd 2015 10 13, dt_time = hm 10 0\<rparr>" monday_config]
  show ?thesis by simp
qed

text \<open>
  C8. The stated law is that, for an instant on the date of the Hours, \<^verbatim>\<open>time_to_open\<close>
  returns zero exactly when \<^verbatim>\<open>lab_is_open\<close> is true, and a positive duration when the
  lab is closed. Evaluated for the Hours of Monday 2015-10-12 (open 09:00-21:00): at
  10:00 on that day, with \<^verbatim>\<open>when\<close> omitted, \<^verbatim>\<open>lab_is_open\<close> is true but
  \<^verbatim>\<open>time_to_open\<close> raises ValueError, because it passes the current instant to
  \<^verbatim>\<open>lab_is_open\<close>, whose validation raises on equal dates; with that instant passed
  explicitly both methods raise ValueError; and at 08:00, when the lab is closed,
  \<^verbatim>\<open>time_to_open\<close> raises ValueError instead of returning one hour.
\<close>

theorem time_to_open_raises_while_open:
  "lab_is_open \<lparr>dt_date = ymd 2015 10 12, dt_time = hm 10 0\<rparr> monday_hours PyNone = Inr True
   \<and> time_to_open monday_config \<lparr>dt_date = ymd 2015 10 12, dt_time = hm 10 0\<rparr> monday_hours PyNone
       = Inl ValueError
   \<and> lab_is_open \<lparr>dt_date = ymd 2015 10 12, dt_time = hm 10 0\<rparr> monday_hours
       (PyDatetime \<lparr>dt_date = ymd 2015 10 12, dt_time = hm 10 0\<rparr>) = Inl ValueError
   \<and> time_to_open monday_config \<lparr>dt_date = ymd 2015 10 12, dt_time = hm 10 0\<rparr> monday_hours
       (PyDatetime \<lparr>dt_date = ymd 2015 10 12, dt_time = hm 10 0\<rparr>) = Inl ValueError
   \<and> time_to_open monday_config \<lparr>dt_date = ymd 2015 10 12, dt_time = hm 8 0\<rparr> monday_hours
       (PyDatetime \<lparr>dt_date = ymd 2015 10 12, dt_time = hm 8 0\<rparr>) = Inl ValueError"
  by code_simp

subsection \<open>Half-open intervals\<close>

text \<open>
  C9, as stated, fails. On Monday 2015-10-12 with the intervals 09:00-12:00 and
  12:00-18:00, at 12:00 (the close time of the first interval) \<^verbatim>\<open>lab_is_open()\<close> is
  true; with that instant passed explicitly it raises ValueError although 12:00 is the
  open time of the second interval; and for the single interval 09:00-09:00 it is false
  at 09:00, the interval's open time.
\<close>

theorem lab_is_open_close_time_counterexample:
  "lab_is_open \<lparr>dt_date = ymd 2015 10 12, dt_time = hm 12 0\<rparr> split_shift_hours PyNone = Inr True
   \<and> lab_is_open \<lparr>dt_date = ymd 2015 10 12, dt_time = hm 12 0\<rparr> split_shift_hours
        (PyDatetime \<lparr>dt_date = ymd 2015 10 12, dt_time = hm 12 0\<rparr>) = Inl ValueError
   \<and> lab_is_open \<lparr>dt_date = ymd 2015 10 12, dt_time = hm 9 0\<rparr>
        \<lparr>date = ymd 2015 10 12, weekday = ''Monday'', holiday = None,
         hours = [\<lparr>open = hm 9 0, close = hm 9 0\<rparr>]\<rparr> PyNone = Inr False"
  by code_simp

text \<open>
  C9, amended. Membership in one interval is half-open: for a datetime or a time,
  \<^verbatim>\<open>when in hour\<close> is open \<open>\<le>\<close> t \<open><\<close> close for the time of day t. So an interval
  with open \<open><\<close> close contains its open time, and no interval contains its own close
  time. \<^verbatim>\<open>lab_is_open\<close> called without \<^verbatim>\<open>when\<close> is true exactly when some interval
  of the Hours contains the current time of day.
\<close>

theorem contains_half_open:
  "contains hr (PyDatetime w) = Inr (open hr \<le> dt_time w \<and> dt_time w < close hr)
   \<and> contains hr (PyTime t) = Inr (open hr \<le> t \<and> t < close hr)
   \<and> (open hr < close hr \<longrightarrow> contains hr (PyDatetime (combine d (open hr))) = Inr True)
   \<and> contains hr (PyDatetime (combine d (close hr))) = Inr False
   \<and> lab_is_open now self PyNone
       = Inr (\<exists>hr \<in> set (hours self). open hr \<le> dt_time now \<and> dt_time now < close hr)"
  by (simp add: combine_def lab_is_open_def any_contains_datetime)

text \<open>
  The amended C9 on the interval 09:00-21:00: 09:00 is inside, 21:00 is outside, and
  \<^verbatim>\<open>lab_is_open()\<close> at 21:00 on Monday 2015-10-12 is false.
\<close>

theorem contains_half_open_witness:
  "open \<lparr>open = hm 9 0, close = hm 21 0\<rparr> < close \<lparr>open = hm 9 0, close = hm 21 0\<rparr>
   \<and> contains \<lparr>open = hm 9 0, close = hm 21 0\<rparr> (PyDatetime (combine (ymd 2015 10 12) (hm 9 0))) = Inr True
   \<and> contains \<lparr>open = hm 9 0, close = hm 21 0\<rparr> (PyDatetime (combine (ymd 2015 10 12) (hm 21 0))) = Inr False
   \<and> lab_is_open \<lparr>dt_date = ymd 2015 10 12, dt_time = hm 21 0\<rparr> monday_hours PyNone = Inr False"
  using contains_half_open [of "\<lparr>open = hm 9 0, close = hm 21 0\<rparr>" "combine (ymd 2015 10 12) (hm 9 0)" "hm 9 0"
           "ymd 2015 10 12" "\<lparr>dt_date = ymd 2015 10 12, dt_time = hm 21 0\<rparr>" monday_hours]
  by (simp add: hm_def monday_hours_def)

subsection \<open>Resolving a date\<close>

text \<open>
  C5, as stated, fails for a date whose weekday the weekly template does not name. With
  a template that names only Friday, Saturday 2015-12-26 lies in the range of a holiday
  without hours, yet \<^verbatim>\<open>get_hours\<close> raises KeyError: the template entry is looked up
  before the holidays are scanned.
\<close>

theorem get_hours_holiday_missing_weekday_counterexample:
  "map_option (\<lambda>data. (h_reason data, h_hours data))
       (find (\<lambda>data. h_start data \<le> ymd 2015 12 26 \<and> ymd 2015 12 26 \<le> h_end data)
          (yaml_holidays holiday_config))
     = Some (''Winter break'', None)
   \<and> get_hours holiday_config \<lparr>dt_date = ymd 2015 10 12, dt_time = hm 8 0\<rparr> (DayDate (ymd 2015 12 26))
       = Inl KeyError"
  by code_simp

text \<open>
  C5, amended. Let the schedule load and let the file name the weekday of \<open>d\<close>; the
  last item of the file for that weekday is its template entry. Then \<^verbatim>\<open>get_hours(d)\<close>
  returns the Hours for \<open>d\<close> as follows. If no configured holiday has
  start \<open>\<le>\<close> d \<open>\<le>\<close> end, the intervals are the parsed template entry and there is no
  label. Otherwise the first such holiday in configured order gives both the label (its
  reason) and the intervals (its own hour strings, parsed; none when its hours are null
  or empty). \<^verbatim>\<open>closed_all_day\<close> of the result is true exactly when that holiday's
  interval list is empty, whatever the template entry is.
\<close>

theorem get_hours_first_holiday_overrides:
  assumes "generate_regular_hours raw = Inr (regular, holidays)"
      and "Days_of_value (date_weekday d) = Inr wd"
      and "find (\<lambda>(day, strs). Days_of_name day = Inr wd) (rev (yaml_hours raw)) = Some (day, strs)"
  shows "\<exists>template_hours. parse_hours strs = Inr template_hours \<and>
           (case find (\<lambda>data. h_start data \<le> d \<and> d \<le> h_end data) (yaml_holidays raw) of
              None \<Rightarrow>
                get_hours raw now (DayDate d)
                  = Inr \<lparr>date = d, weekday = strftime_A d, holiday = None, hours = template_hours\<rparr>
            | Some data \<Rightarrow>
                (\<exists>hs. (case h_hours data of None \<Rightarrow> Inr [] | Some strs' \<Rightarrow> parse_hours strs') = Inr hs
                    \<and> get_hours raw now (DayDate d)
                        = Inr \<lparr>date = d, weekday = strftime_A d, holiday = Some (h_reason data), hours = hs\<rparr>
                    \<and> closed_all_day \<lparr>date = d, weekday = strftime_A d, holiday = Some (h_reason data), hours = hs\<rparr>
                        = (hs = [])
                    \<and> (h_hours data = None \<or> h_hours data = Some [] \<longrightarrow> hs = [])))"
proof -
  have lr: "load_regular (yaml_hours raw) Map.empty = Inr regular"
    and lh: "load_holidays (yaml_holidays raw) = Inr holidays"
    using assms(1) by (auto simp: generate_regular_hours_def split: sum.splits)
  from load_regular_last [OF lr, of wd] assms(3) obtain template_hours where
    t: "parse_hours strs = Inr template_hours" "regular wd = Some template_hours"
    by auto
  let ?my = "(None :: string option, template_hours)"
  have g: "get_hours raw now (DayDate d) =
             (let (my_holiday, my_hours) = scan_holidays holidays d ?my in
              Inr \<lparr>date = d, weekday = strftime_A d, holiday = my_holiday, hours = my_hours\<rparr>)"
    using assms(1,2) t(2) by (simp add: get_hours_def)
  show ?thesis
  proof (intro exI conjI)
    show "parse_hours strs = Inr template_hours" by (rule t(1))
    show "(case find (\<lambda>data. h_start data \<le> d \<and> d \<le> h_end data) (yaml_holidays raw) of
              None \<Rightarrow>
                get_hours raw now (DayDate d)
                  = Inr \<lparr>date = d, weekday = strftime_A d, holiday = None, hours = template_hours\<rparr>
            | Some data \<Rightarrow>
                (\<exists>hs. (case h_hours data of None \<Rightarrow> Inr [] | Some strs' \<Rightarrow> parse_hours strs') = Inr hs
                    \<and> get_hours raw now (DayDate d)
                        = Inr \<lparr>date = d, weekday = strftime_A d, holiday = Some (h_reason data), hours = hs\<rparr>
                    \<and> closed_all_day \<lparr>date = d, weekday = strftime_A d, holiday = Some (h_reason data), hours = hs\<rparr>
                        = (hs = [])
                    \<and> (h_hours data = None \<or> h_hours data = Some [] \<longrightarrow> hs = [])))"
      using load_holidays_scan [OF lh, of d ?my] g
      by (auto simp: closed_all_day_def split: option.splits)
  qed
qed

text \<open>
  The amended C5 on the Friday-only template: Friday 2015-11-27 lies in both holidays
  and takes the hours and label of the first; Friday 2015-12-25 lies in the second only
  and is closed all day; Friday 2015-11-20 lies in none and keeps the template hours.
\<close>

theorem get_hours_first_holiday_overrides_witness:
  "get_hours holiday_config \<lparr>dt_date = ymd 2015 10 12, dt_time = hm 8 0\<rparr> (DayDate (ymd 2015 11 27))
     = Inr \<lparr>date = ymd 2015 11 27, weekday = ''Friday'', holiday = Some ''Thanksgiving'',
            hours = [\<lparr>open = hm 11 0, close = hm 15 0\<rparr>]\<rparr>
   \<and> get_hours holiday_config \<lparr>dt_date = ymd 2015 10 12, dt_time = hm 8 0\<rparr> (DayDate (ymd 2015 12 25))
     = Inr \<lparr>date = ymd 2015 12 25, weekday = ''Friday'', holiday = Some ''Winter break'', hours = []\<rparr>
   \<and> closed_all_day \<lparr>date = ymd 2015 12 25, weekday = ''Friday'', holiday = Some ''Winter break'', hours = []\<rparr>
   \<and> get_hours holiday_config \<lparr>dt_date = ymd 2015 10 12, dt_time = hm 8 0\<rparr> (DayDate (ymd 2015 11 20))
     = Inr \<lparr>date = ymd 2015 11 20, weekday = ''Friday'', holiday = None,
            hours = [\<lparr>open = hm 9 0, close = hm 21 0\<rparr>]\<rparr>"
proof -
  let ?now = "\<lparr>dt_date = ymd 2015 10 12, dt_time = hm 8 0\<rparr>"
  let ?P = "\<lambda>d data. h_start data \<le> d \<and> d \<le> h_end data"
  have "\<not> isl (generate_regular_hours holiday_config)" by code_simp
  then obtain regular holidays where
    l: "generate_regular_hours holiday_config = Inr (regular, holidays)"
    by (cases "generate_regular_hours holiday_config") auto
  have w: "Days_of_value (date_weekday (ymd 2015 11 27)) = Inr Friday"
          "Days_of_value (date_weekday (ymd 2015 12 25)) = Inr Friday"
          "Days_of_value (date_weekday (ymd 2015 11 20)) = Inr Friday"
    by code_simp+
  have e: "find (\<lambda>(day, strs). Days_of_name day = Inr Friday) (rev (yaml_hours holiday_config))
             = Some (''Friday'', [''09:00-21:00''])"
    by code_simp
  have s: "strftime_A (ymd 2015 11 27) = ''Friday''" "strftime_A (ymd 2015 12 25) = ''Friday''"
          "strftime_A (ymd 2015 11 20) = ''Friday''"
    by code_simp+
  have f1: "find (?P (ymd 2015 11 27)) (yaml_holidays holiday_config)
              = Some \<lparr>h_start = ymd 2015 11 27, h_end = ymd 2015 11 27,
                      h_reason = ''Thanksgiving'', h_hours = Some [''11:00-15:00'']\<rparr>"
    by code_simp
  have f2: "find (?P (ymd 2015 12 25)) (yaml_holidays holiday_config)
              = Some \<lparr>h_start = ymd 2015 11 27, h_end = ymd 2015 12 26,
                      h_reason = ''Winter break'', h_hours = None\<rparr>"
    by code_simp
  have f3: "find (?P (ymd 2015 11 20)) (yaml_holidays holiday_config) = None"
    by code_simp
  have p: "parse_hours [''11:00-15:00''] = Inr [\<lparr>open = hm 11 0, close = hm 15 0\<rparr>]"
    by code_simp
  have a: "get_hours holiday_config ?now (DayDate (ymd 2015 11 27))
     = Inr \<lparr>date = ymd 2015 11 27, weekday = ''Friday'', holiday = Some ''Thanksgiving'',
            hours = [\<lparr>open = hm 11 0, close = hm 15 0\<rparr>]\<rparr>"
    using get_hours_first_holiday_overrides [OF l w(1) e, of ?now]
    by (simp add: f1 p s parse_nine_to_nine del: parse_hours.simps)
  have b: "get_hours holiday_config ?now (DayDate (ymd 2015 12 25))
     = Inr \<lparr>date = ymd 2015 12 25, weekday = ''Friday'', holiday = Some ''Winter break'', hours = []\<rparr>"
    using get_hours_first_holiday_overrides [OF l w(2) e, of ?now]
    by (simp add: f2 s parse_nine_to_nine del: parse_hours.simps)
  have c: "get_hours holiday_config ?now (DayDate (ymd 2015 11 20))
     = Inr \<lparr>date = ymd 2015 11 20, weekday = ''Friday'', holiday = None,
            hours = [\<lparr>open = hm 9 0, close = hm 21 0\<rparr>]\<rparr>"
    using get_hours_first_holiday_overrides [OF l w(3) e, of ?now]
    by (simp add: f3 s parse_nine_to_nine del: parse_hours.simps)
  from a b c show ?thesis by (simp add: closed_all_day_def)
qed

text \<open>
  C4, as stated, fails. The schedule that names only Monday loads without error;
  \<^verbatim>\<open>get_hours\<close> then returns the Hours of Monday 2015-10-12 and raises KeyError for
  Tuesday 2015-10-13.
\<close>

theorem get_hours_missing_weekday_counterexample:
  "\<not> isl (generate_regular_hours monday_config)
   \<and> get_hours monday_config \<lparr>dt_date = ymd 2015 10 12, dt_time = hm 8 0\<rparr> (DayDate (ymd 2015 10 12))
       = Inr monday_hours
   \<and> get_hours monday_config \<lparr>dt_date = ymd 2015 10 12, dt_time = hm 8 0\<rparr> (DayDate (ymd 2015 10 13))
       = Inl KeyError"
proof -
  have b: "Days_of_value (date_weekday (ymd 2015 10 12)) = Inr Monday" by code_simp
  have c: "Days_of_value (date_weekday (ymd 2015 10 13)) = Inr Tuesday" by code_simp
  have s: "strftime_A (ymd 2015 10 12) = ''Monday''" by code_simp
  show ?thesis
    by (simp add: get_hours_def monday_config_loaded b c s monday_hours_def)
qed

text \<open>
  C4, amended. The loader makes no check that all seven weekdays are present: when it
  succeeds, the template it returns has exactly the weekdays the file names.
  \<^verbatim>\<open>get_hours(d)\<close>, which loads the file on each call, then raises KeyError exactly
  when the file does not name the weekday of \<open>d\<close>, and returns an Hours when it does.
\<close>

theorem get_hours_missing_weekday:
  assumes "generate_regular_hours raw = Inr (regular, holidays)"
      and "Days_of_value (date_weekday d) = Inr wd"
  shows "dom regular = {wd. \<exists>day \<in> fst ` set (yaml_hours raw). Days_of_name day = Inr wd}
       \<and> (get_hours raw now (DayDate d) = Inl KeyError
            \<longleftrightarrow> (\<forall>day \<in> fst ` set (yaml_hours raw). Days_of_name day \<noteq> Inr wd))
       \<and> ((\<exists>day \<in> fst ` set (yaml_hours raw). Days_of_name day = Inr wd)
            \<longrightarrow> (\<exists>h. get_hours raw now (DayDate d) = Inr h))"
proof -
  have l: "load_regular (yaml_hours raw) Map.empty = Inr regular"
    using assms(1) by (auto simp: generate_regular_hours_def split: sum.splits)
  have entry: "(regular w \<noteq> None) = (\<exists>day \<in> fst ` set (yaml_hours raw). Days_of_name day = Inr w)" for w
    using load_regular_entry [OF l, of w] by simp
  have dom: "dom regular = {wd. \<exists>day \<in> fst ` set (yaml_hours raw). Days_of_name day = Inr wd}"
    unfolding dom_def using entry by blast
  have none: "regular wd = None \<longleftrightarrow> (\<forall>day \<in> fst ` set (yaml_hours raw). Days_of_name day \<noteq> Inr wd)"
    using entry [of wd] by blast
  have k: "get_hours raw now (DayDate d) = Inl KeyError \<longleftrightarrow> regular wd = None"
    using assms by (auto simp: get_hours_def split: option.splits prod.splits)
  have s: "regular wd \<noteq> None \<Longrightarrow> \<exists>h. get_hours raw now (DayDate d) = Inr h"
    using assms by (auto simp: get_hours_def split: option.splits prod.splits)
  from dom none k s show ?thesis by blast
qed

text \<open>
  The amended C4 on the schedule that names only Monday: Wednesday 2015-10-14 raises
  KeyError and Monday 2015-10-19 resolves.
\<close>

theorem get_hours_missing_weekday_witness:
  "get_hours monday_config \<lparr>dt_date = ymd 2015 10 12, dt_time = hm 8 0\<rparr> (DayDate (ymd 2015 10 14))
       = Inl KeyError
   \<and> (\<exists>h. get_hours monday_config \<lparr>dt_date = ymd 2015 10 12, dt_time = hm 8 0\<rparr> (DayDate (ymd 2015 10 19))
       = Inr h)"
proof -
  have n: "Days_of_name ''Monday'' = Inr Monday" by code_simp
  have b: "Days_of_value (date_weekday (ymd 2015 10 14)) = Inr Wednesday" by code_simp
  have c: "Days_of_value (date_weekday (ymd 2015 10 19)) = Inr Monday" by code_simp
  have y: "fst ` set (yaml_hours monday_config) = {''Monday''}" by (simp add: monday_config_def)
  from get_hours_missing_weekday [OF monday_config_loaded b, of "\<lparr>dt_date = ymd 2015 10 12, dt_time = hm 8 0\<rparr>"]
       get_hours_missing_weekday [OF monday_config_loaded c, of "\<lparr>dt_date = ymd 2015 10 12, dt_time = hm 8 0\<rparr>"]
  show ?thesis by (simp add: y n)
qed

subsection \<open>The search for the next opening\<close>

text \<open>
  C2, as stated, fails. With a schedule that has no interval on any weekday, at 10:00
  on 2015-10-12, \<^verbatim>\<open>time_to_open()\<close> on the Hours of 2015-10-13 resolves every date up
  to 9999-12-31 and then raises OverflowError from the date increment. There is no
  lookahead limit and no SearchExhausted error.
\<close>

theorem time_to_open_overflow_counterexample:
  "time_to_open closed_config \<lparr>dt_date = ymd 2015 10 12, dt_time = hm 10 0\<rparr>
     \<lparr>date = ymd 2015 10 13, weekday = ''Tuesday'', holiday = None, hours = []\<rparr> PyNone
   = Inl OverflowError"
proof -
  have d: "ymd 2015 10 13 = 735884" "ymd 2015 10 12 = 735883" by code_simp+
  have "next_opens closed_config \<lparr>dt_date = ymd 2015 10 12, dt_time = hm 10 0\<rparr> (ymd 2015 10 13) []
          = Inl OverflowError"
    by (rule next_opens_overflow) (simp_all add: d closed_config_date_opens)
  then show ?thesis
    by (simp add: time_to_open_def lab_is_open_def closed_config_date_opens d)
qed

text \<open>
  C2, amended. Suppose \<^verbatim>\<open>time_to_open\<close> gets past its validation and its own
  \<^verbatim>\<open>lab_is_open\<close> test with the answer closed, and no opening of the Hours' date is
  later than the validated instant. Then it resolves the following dates one by one,
  with no limit other than the last date 9999-12-31: if every following date resolves
  to no interval, it raises OverflowError; if some following date has an interval, it
  takes the first such date and evaluates the first opening of that date minus the
  validated instant.
\<close>

theorem time_to_open_unbounded_search:
  assumes "validate_time now self when = Inr w"
      and "lab_is_open now self w = Inr False"
      and "date_opens raw now (date self) = Inr opens"
      and "opens_after opens w = Inr []"
      and "1 \<le> date self"
  shows "((\<forall>d'. date self < d' \<and> d' \<le> MAXORDINAL \<longrightarrow> date_opens raw now d' = Inr [])
            \<longrightarrow> time_to_open raw now self when = Inl OverflowError)
       \<and> (\<forall>d' os. date self < d' \<and> d' \<le> MAXORDINAL
             \<and> (\<forall>d''. date self < d'' \<and> d'' < d' \<longrightarrow> date_opens raw now d'' = Inr [])
             \<and> date_opens raw now d' = Inr os \<and> os \<noteq> []
            \<longrightarrow> time_to_open raw now self when = datetime_minus (hd os) w)"
proof (intro conjI impI allI)
  assume "\<forall>d'. date self < d' \<and> d' \<le> MAXORDINAL \<longrightarrow> date_opens raw now d' = Inr []"
  then have "next_opens raw now (date self) [] = Inl OverflowError"
    using assms(5) by (intro next_opens_overflow) auto
  then show "time_to_open raw now self when = Inl OverflowError"
    using assms by (simp add: time_to_open_def)
next
  fix d' os
  assume a: "date self < d' \<and> d' \<le> MAXORDINAL
             \<and> (\<forall>d''. date self < d'' \<and> d'' < d' \<longrightarrow> date_opens raw now d'' = Inr [])
             \<and> date_opens raw now d' = Inr os \<and> os \<noteq> []"
  then have "next_opens raw now (date self) [] = Inr os"
    using assms(5) by (intro next_opens_found [where d' = d']) auto
  moreover have "getitem os 0 = Inr (hd os)"
    using a by (cases os) (simp_all add: getitem_def)
  ultimately show "time_to_open raw now self when = datetime_minus (hd os) w"
    using assms by (simp add: time_to_open_def)
qed

text \<open>
  The amended C2 on the Hours of Saturday 2015-10-17, which has no interval, with
  \<^verbatim>\<open>when\<close> omitted: under the schedule without any interval, seen from 10:00 on
  2015-10-12, the search ends with OverflowError; under the Monday-to-Friday schedule,
  seen from Friday 2015-10-16 at 22:00, it skips Sunday and returns the 59 hours until
  Monday 09:00.
\<close>

theorem time_to_open_unbounded_search_witness:
  "time_to_open closed_config \<lparr>dt_date = ymd 2015 10 12, dt_time = hm 10 0\<rparr>
     \<lparr>date = ymd 2015 10 17, weekday = ''Saturday'', holiday = None, hours = []\<rparr> PyNone
     = Inl OverflowError
   \<and> time_to_open weekday_config \<lparr>dt_date = ymd 2015 10 16, dt_time = hm 22 0\<rparr>
       \<lparr>date = ymd 2015 10 17, weekday = ''Saturday'', holiday = None, hours = []\<rparr> PyNone
     = Inr (59 * 3600000000)"
proof -
  let ?nowA = "\<lparr>dt_date = ymd 2015 10 12, dt_time = hm 10 0\<rparr>"
  let ?nowB = "\<lparr>dt_date = ymd 2015 10 16, dt_time = hm 22 0\<rparr>"
  let ?self = "\<lparr>date = ymd 2015 10 17, weekday = ''Saturday'', holiday = None, hours = []\<rparr>"
  have d: "ymd 2015 10 17 = 735888" by code_simp
  have vA: "validate_time ?nowA ?self PyNone = Inr (PyDatetime ?nowA)" by simp
  have vB: "validate_time ?nowB ?self PyNone = Inr (PyDatetime ?nowB)" by simp
  have cA: "lab_is_open ?nowA ?self (PyDatetime ?nowA) = Inr False" by code_simp
  have cB: "lab_is_open ?nowB ?self (PyDatetime ?nowB) = Inr False" by code_simp
  have oA: "date_opens closed_config ?nowA (date ?self) = Inr []"
    by (rule closed_config_date_opens)
  have oB: "date_opens weekday_config ?nowB (date ?self) = Inr []" by code_simp
  have f: "opens_after [] (PyDatetime n) = Inr []" for n by simp
  have p: "1 \<le> date ?self" by (simp add: d)
  have allA: "\<forall>d'. date ?self < d' \<and> d' \<le> MAXORDINAL \<longrightarrow> date_opens closed_config ?nowA d' = Inr []"
    by (simp add: closed_config_date_opens)
  have sun: "date_opens weekday_config ?nowB 735889 = Inr []" by code_simp
  have mon: "date_opens weekday_config ?nowB 735890 = Inr [combine 735890 (hm 9 0)]" by code_simp
  have gap: "\<forall>d''. date ?self < d'' \<and> d'' < 735890 \<longrightarrow> date_opens weekday_config ?nowB d'' = Inr []"
  proof (intro allI impI)
    fix d'' :: int
    assume "date ?self < d'' \<and> d'' < 735890"
    then have "d'' = 735889" by (simp add: d)
    then show "date_opens weekday_config ?nowB d'' = Inr []" using sun by simp
  qed
  have m: "date ?self < 735890 \<and> 735890 \<le> MAXORDINAL" by (simp add: d MAXORDINAL_def)
  have A: "time_to_open closed_config ?nowA ?self PyNone = Inl OverflowError"
    using time_to_open_unbounded_search [OF vA cA oA f p] allA by blast
  have B: "time_to_open weekday_config ?nowB ?self PyNone
             = datetime_minus (hd [combine 735890 (hm 9 0)]) (PyDatetime ?nowB)"
    using time_to_open_unbounded_search [OF vB cB oB f p] gap mon m by blast
  have v: "datetime_minus (hd [combine 735890 (hm 9 0)]) (PyDatetime ?nowB) = Inr (59 * 3600000000)"
    by code_simp
  from A B v show ?thesis by simp
qed

end
